theory Spec2Isabelle
  imports Complex_Main "HOL-Library.AList"
begin

section \<open>JavaScript values\<close>

text \<open>
  The values that travel through the configuration code: JSON trees plus \<open>undefined\<close>.
  An object is an association list in property order; \<open>Num\<close> carries an exact rational
  (no NaN, no infinities, no rounding). Keys are assumed not to name a property inherited
  from \<open>Object.prototype\<close>, so reading a missing key gives \<open>undefined\<close>.
\<close>

datatype jsval =
    Undefined
  | Null
  | Bool bool
  | Num rat
  | Str string
  | Arr "jsval list"
  | Obj "(string \<times> jsval) list"

type_synonym jsobj = "(string \<times> jsval) list"

text \<open>\<open>obj[key]\<close> as a read.\<close>

definition get_prop :: "jsobj \<Rightarrow> string \<Rightarrow> jsval" where
  "get_prop obj k = (case map_of obj k of None \<Rightarrow> Undefined | Some v \<Rightarrow> v)"

text \<open>
  \<open>a === b\<close>. Primitives compare by type and value. Arrays and objects compare by
  reference; the trees compared here are built separately (one parsed from the server's
  answer or from storage, the other read from the form), so two of them are never the same
  reference and the comparison is false.
\<close>

fun strict_eq :: "jsval \<Rightarrow> jsval \<Rightarrow> bool" where
  "strict_eq Undefined Undefined = True"
| "strict_eq Null Null = True"
| "strict_eq (Bool a) (Bool b) = (a = b)"
| "strict_eq (Num a) (Num b) = (a = b)"
| "strict_eq (Str a) (Str b) = (a = b)"
| "strict_eq _ _ = False"

section \<open>Settings diff (settings-modal.js, getChangedSettings)\<close>

text \<open>
  \<open>isNumeric && Math.abs(currentValue - newValue) < 0.00001\<close>: both operands are
  numbers and their distance is below the tolerance.
\<close>

fun within_epsilon :: "jsval \<Rightarrow> jsval \<Rightarrow> bool" where
  "within_epsilon (Num a) (Num b) = (\<bar>a - b\<bar> < 1 / 100000)"
| "within_epsilon _ _ = False"

text \<open>
  The \<open>for (const key in newSettings)\<close> loop, with \<open>changes\<close> as the accumulator.
  \<open>changes[key] = newValue\<close> is \<open>AList.update\<close>. The first branch is taken when the new
  value is a plain object (\<open>typeof newValue === 'object'\<close>, not null, not an array).
\<close>

function gcs_loop :: "jsobj \<Rightarrow> jsobj \<Rightarrow> jsobj \<Rightarrow> jsobj" where
  "gcs_loop current [] changes = changes"
| "gcs_loop current ((key, newValue) # rest) changes =
     (let currentValue = get_prop current key in
      case newValue of
        Obj newObj \<Rightarrow>
          (case currentValue of
             Obj curObj \<Rightarrow>
               if gcs_loop curObj newObj [] \<noteq> []
               then gcs_loop current rest (AList.update key newValue changes)
               else gcs_loop current rest changes
           | _ \<Rightarrow> gcs_loop current rest (AList.update key newValue changes))
      | _ \<Rightarrow>
          if \<not> strict_eq currentValue newValue
          then (if within_epsilon currentValue newValue
                then gcs_loop current rest changes
                else gcs_loop current rest (AList.update key newValue changes))
          else gcs_loop current rest changes)"
  by pat_completeness auto
termination
  by (relation "measure (\<lambda>(c, n, ch). size (Obj n))") auto

definition getChangedSettings :: "jsobj \<Rightarrow> jsobj \<Rightarrow> jsobj" where
  "getChangedSettings current newSettings = gcs_loop current newSettings []"

text \<open>The decision the loop body takes for one property of the proposal.\<close>

definition entry_changed :: "jsobj \<Rightarrow> string \<Rightarrow> jsval \<Rightarrow> bool" where
  "entry_changed current key newValue =
     (case newValue of
        Obj newObj \<Rightarrow>
          (case get_prop current key of
             Obj curObj \<Rightarrow> getChangedSettings curObj newObj \<noteq> []
           | _ \<Rightarrow> True)
      | _ \<Rightarrow> \<not> strict_eq (get_prop current key) newValue \<and>
             \<not> within_epsilon (get_prop current key) newValue)"

text \<open>
  The specification's wording, for comparison with the code: some leaf beneath the
  proposed value differs from the corresponding leaf of the baseline, numbers being
  compared up to the tolerance. A leaf whose path is missing from the baseline has
  \<open>undefined\<close> as its baseline.
\<close>

fun spec_leaf_differs :: "jsval \<Rightarrow> jsval \<Rightarrow> bool" where
  "spec_leaf_differs baseline (Obj newObj) =
     (\<exists>(k, v) \<in> set newObj.
        spec_leaf_differs (case baseline of Obj curObj \<Rightarrow> get_prop curObj k | _ \<Rightarrow> Undefined) v)"
| "spec_leaf_differs baseline leaf =
     (\<not> strict_eq baseline leaf \<and> \<not> within_epsilon baseline leaf)"

section \<open>Session statistics (variables-globals.js)\<close>

text \<open>
  The global \<open>stats\<close> object. JavaScript numbers are modelled as exact rationals:
  the counters are only ever incremented from 0 and the efficiency only moves by the
  decimal steps 0.1 and 1, so the rounding of IEEE doubles is outside the model.
\<close>

record stats =
  messages :: nat
  tokens :: nat
  totalTime :: rat
  ttsEfficiency :: rat

definition initial_stats :: stats where
  "initial_stats = \<lparr>messages = 0, tokens = 0, totalTime = 0, ttsEfficiency = 100\<rparr>"

definition resetStats :: "stats \<Rightarrow> stats" where
  "resetStats s = \<lparr>messages = 0, tokens = 0, totalTime = 0, ttsEfficiency = 100\<rparr>"

definition updateTTSEfficiency :: "bool \<Rightarrow> stats \<Rightarrow> stats" where
  "updateTTSEfficiency success s =
     (if success then s\<lparr>ttsEfficiency := min 100 (ttsEfficiency s + 1 / 10)\<rparr>
      else s\<lparr>ttsEfficiency := max 0 (ttsEfficiency s - 1)\<rparr>)"

text \<open>A sequence of calls, oldest first, threaded through the global.\<close>

fun updateTTSEfficiency_calls :: "bool list \<Rightarrow> stats \<Rightarrow> stats" where
  "updateTTSEfficiency_calls [] s = s"
| "updateTTSEfficiency_calls (b # bs) s = updateTTSEfficiency_calls bs (updateTTSEfficiency b s)"

section \<open>Streaming response assembler (message-handler.js)\<close>

text \<open>
  The transcript is the list of children of the \<open>dialogue-container\<close> element; the element
  itself may be missing from the page. A bubble carries its class, whether its id is
  \<open>current-response\<close>, the text of its \<open>.message-content\<close> child (when it has one) and
  whether a time stamp has been added. Scroll positions are layout state of the page and
  are left out.
\<close>

datatype role = User | Assistant | System

record bubble =
  role :: role
  current_response :: bool
  content :: "string option"
  time_stamp :: bool

text \<open>
  The module's globals, together with the timeouts it has pending: each is a handle and a
  delay in milliseconds, and its callback is always \<open>flushTokenBuffer\<close>. Handles are
  positive in a browser, so a stored handle is truthy. The characters of a string are the
  units its \<open>length\<close> counts.
\<close>

record assembler =
  tokenBuffer :: string
  bufferFlushTimer :: "nat option"
  timers :: "(nat \<times> nat) list"
  next_timer :: nat
  dialogue :: "bubble list option"

definition BATCH_SIZE :: nat where
  "BATCH_SIZE = 5"

definition BATCH_TIMEOUT :: nat where
  "BATCH_TIMEOUT = 100"

definition initial_assembler :: assembler where
  "initial_assembler =
     \<lparr>tokenBuffer = [], bufferFlushTimer = None, timers = [], next_timer = 1, dialogue = Some []\<rparr>"

definition clearTimeout :: "nat \<Rightarrow> assembler \<Rightarrow> assembler" where
  "clearTimeout h s = s\<lparr>timers := filter (\<lambda>(i, d). i \<noteq> h) (timers s)\<rparr>"

definition createMessageBubble :: "role \<Rightarrow> string \<Rightarrow> bubble" where
  "createMessageBubble r c = \<lparr>role = r, current_response = False, content = Some c, time_stamp = False\<rparr>"

text \<open>
  \<open>document.getElementById('current-response')\<close> finds the first element with that id in
  document order, and only bubbles of the container ever carry it; \<open>update_current f\<close>
  applies \<open>f\<close> to that element and to nothing else.
\<close>

fun update_current :: "(bubble \<Rightarrow> bubble) \<Rightarrow> bubble list \<Rightarrow> bubble list" where
  "update_current f [] = []"
| "update_current f (b # bs) = (if current_response b then f b # bs else b # update_current f bs)"

text \<open>\<open>content.textContent += tokenBuffer\<close>, guarded by \<open>if (content)\<close>.\<close>

definition append_text :: "string \<Rightarrow> bubble \<Rightarrow> bubble" where
  "append_text t b = (case content b of None \<Rightarrow> b | Some c \<Rightarrow> b\<lparr>content := Some (c @ t)\<rparr>)"

definition resetTokenBuffer :: "assembler \<Rightarrow> assembler" where
  "resetTokenBuffer s =
     (let s1 = s\<lparr>tokenBuffer := []\<rparr> in
      case bufferFlushTimer s1 of
        None \<Rightarrow> s1
      | Some h \<Rightarrow> (clearTimeout h s1)\<lparr>bufferFlushTimer := None\<rparr>)"

definition flushTokenBuffer :: "assembler \<Rightarrow> assembler" where
  "flushTokenBuffer s =
     (if tokenBuffer s = [] then s
      else case dialogue s of
        None \<Rightarrow> resetTokenBuffer s
      | Some bs \<Rightarrow>
          if \<not> list_ex current_response bs then resetTokenBuffer s
          else resetTokenBuffer (s\<lparr>dialogue := Some (update_current (append_text (tokenBuffer s)) bs)\<rparr>))"

definition startNewAssistantResponse :: "assembler \<Rightarrow> assembler" where
  "startNewAssistantResponse s =
     (let s1 = resetTokenBuffer s in
      case dialogue s1 of
        None \<Rightarrow> s1
      | Some bs \<Rightarrow> s1\<lparr>dialogue := Some (bs @ [(createMessageBubble Assistant [])\<lparr>current_response := True\<rparr>])\<rparr>)"

definition appendToCurrentResponse :: "string \<Rightarrow> assembler \<Rightarrow> assembler" where
  "appendToCurrentResponse token s =
     (let s1 = s\<lparr>tokenBuffer := tokenBuffer s @ token\<rparr> in
      if BATCH_SIZE \<le> length (tokenBuffer s1) \<or> CHR 0x0A \<in> set token \<or>
         (\<exists>c \<in> set token. c = CHR ''.'' \<or> c = CHR ''!'' \<or> c = CHR ''?'')
      then flushTokenBuffer s1
      else
        let s2 = (case bufferFlushTimer s1 of None \<Rightarrow> s1 | Some h \<Rightarrow> clearTimeout h s1) in
        s2\<lparr>timers := timers s2 @ [(next_timer s2, BATCH_TIMEOUT)],
           bufferFlushTimer := Some (next_timer s2),
           next_timer := Suc (next_timer s2)\<rparr>)"

definition finishCurrentResponse :: "assembler \<Rightarrow> assembler" where
  "finishCurrentResponse s =
     (let s1 = flushTokenBuffer s in
      case dialogue s1 of
        None \<Rightarrow> s1
      | Some bs \<Rightarrow>
          if \<not> list_ex current_response bs then s1
          else s1\<lparr>dialogue := Some (update_current (\<lambda>b. b\<lparr>current_response := False, time_stamp := True\<rparr>) bs)\<rparr>)"

text \<open>
  A turn that is open with the text \<open>Hello\<close> already visible and the fragment \<open>ab\<close>
  waiting in the buffer for its deferred flush.
\<close>

definition pending_turn :: assembler where
  "pending_turn =
     appendToCurrentResponse ''ab''
       (appendToCurrentResponse ''Hello'' (startNewAssistantResponse initial_assembler))"

section \<open>Log calls\<close>

text \<open>
  \<open>addLogEntry(message, type)\<close> belongs to the debug console. Each component below keeps
  the sequence of its calls to it. A message is its text without the leading pictogram
  and without accents; the periodic routing summary and the report of a saved commit
  carry their numbers instead of their formatted text.
\<close>

datatype log_level = LInfo | LSuccess | LWarning | LError

datatype log_message =
    Message string
  | RoutingSummary nat rat "(string \<times> nat) list"
  | SettingsSaved nat

type_synonym log_entry = "log_message \<times> log_level"

section \<open>Message router (websocket-manager.js)\<close>

text \<open>An inbound envelope: its \<open>type\<close> tag and the rest of its fields.\<close>

record envelope =
  etype :: string
  payload :: jsobj

text \<open>
  The route table \<open>messageRoutes\<close>, the \<open>routingMetrics\<close> object (\<open>mostFrequent\<close> is a
  \<open>Map\<close>, kept in insertion order), the log calls, and in \<open>app\<close> the rest of the page that
  handlers act on. \<open>'h\<close> is the type of handlers.
\<close>

record ('h, 'a) router =
  messageRoutes :: "string \<rightharpoonup> 'h"
  totalMessages :: nat
  routingTimeSum :: rat
  unknownTypes :: nat
  mostFrequent :: "(string \<times> nat) list"
  router_log :: "log_entry list"
  app :: 'a

definition router_addLogEntry :: "log_message \<Rightarrow> log_level \<Rightarrow> ('h, 'a) router \<Rightarrow> ('h, 'a) router" where
  "router_addLogEntry m l s = s\<lparr>router_log := router_log s @ [(m, l)]\<rparr>"

text \<open>
  The three most frequent types: the entries sorted by decreasing count (the sort is
  stable), cut after three. The average is only taken after at least one message.
\<close>

definition logRoutingMetrics :: "('h, 'a) router \<Rightarrow> ('h, 'a) router" where
  "logRoutingMetrics s =
     router_addLogEntry
       (RoutingSummary (totalMessages s) (routingTimeSum s / of_nat (totalMessages s))
          (take 3 (sort_key (\<lambda>(t, c). - int c) (mostFrequent s))))
       LInfo s"

text \<open>
  \<open>run h data\<close> is the execution of handler \<open>h\<close> on the envelope: the state it
  leaves (a handler may change anything) and whether it threw. \<open>elapsed\<close> is the
  difference of the two \<open>performance.now()\<close> readings. The result is \<open>Inr\<close> of the state
  when the function returns and \<open>Inl\<close> of the state when an exception leaves it.
\<close>

definition routeWebSocketMessage ::
  "('h \<Rightarrow> envelope \<Rightarrow> ('h, 'a) router \<Rightarrow> ('h, 'a) router \<times> bool) \<Rightarrow> rat \<Rightarrow> envelope \<Rightarrow>
   ('h, 'a) router \<Rightarrow> ('h, 'a) router + ('h, 'a) router" where
  "routeWebSocketMessage run elapsed data s =
     (let s1 = s\<lparr>totalMessages := totalMessages s + 1\<rparr>;
          count = (case map_of (mostFrequent s1) (etype data) of None \<Rightarrow> 0 | Some c \<Rightarrow> c);
          s2 = s1\<lparr>mostFrequent := AList.update (etype data) (count + 1) (mostFrequent s1)\<rparr>;
          handled =
            (case messageRoutes s2 (etype data) of
               Some handler \<Rightarrow> run handler data s2
             | None \<Rightarrow>
                 (router_addLogEntry
                    (Message (''Type de message WebSocket inconnu: '' @ etype data)) LWarning
                    (s2\<lparr>unknownTypes := unknownTypes s2 + 1\<rparr>), False))
      in case handled of
           (s3, threw) \<Rightarrow>
             if threw then Inl s3
             else
               let s4 = s3\<lparr>routingTimeSum := routingTimeSum s3 + elapsed\<rparr> in
               Inr (if totalMessages s4 mod 100 = 0 then logRoutingMetrics s4 else s4))"

definition resetRoutingMetrics :: "('h, 'a) router \<Rightarrow> ('h, 'a) router" where
  "resetRoutingMetrics s =
     router_addLogEntry (Message ''Metriques routing reset'') LInfo
       (s\<lparr>totalMessages := 0, routingTimeSum := 0, unknownTypes := 0, mostFrequent := []\<rparr>)"

section \<open>Connection manager (websocket-manager.js)\<close>

text \<open>
  The globals \<open>isConnected\<close> and \<open>ws\<close> (sockets are numbered in the order of their
  construction), the pending timeouts set by close events (handle and delay; the callback
  is always the reconnect check), the log calls, the custom events dispatched on the
  document, the number of configuration reloads requested and the endpoint address. The
  status indicator of the page is left out.
\<close>

record connection =
  isConnected :: bool
  ws :: "nat option"
  sockets_created :: nat
  reconnect_timers :: "(nat \<times> nat) list"
  next_handle :: nat
  connection_log :: "log_entry list"
  dispatched :: "string list"
  config_loads :: nat
  wsUrl :: string

definition connection_addLogEntry :: "log_message \<Rightarrow> log_level \<Rightarrow> connection \<Rightarrow> connection" where
  "connection_addLogEntry m l s = s\<lparr>connection_log := connection_log s @ [(m, l)]\<rparr>"

definition initializeWebSocket :: "connection \<Rightarrow> connection" where
  "initializeWebSocket s =
     (let s1 = connection_addLogEntry (Message (''Connexion WebSocket: '' @ wsUrl s)) LInfo s in
      s1\<lparr>ws := Some (sockets_created s1), sockets_created := Suc (sockets_created s1)\<rparr>)"

definition handleWebSocketOpen :: "connection \<Rightarrow> connection" where
  "handleWebSocketOpen s =
     (let s1 = connection_addLogEntry (Message ''Connexion WebSocket etablie'') LSuccess
                 (s\<lparr>isConnected := True\<rparr>) in
      s1\<lparr>config_loads := Suc (config_loads s1), dispatched := dispatched s1 @ [''websocketConnected'']\<rparr>)"

definition handleWebSocketClose :: "connection \<Rightarrow> connection" where
  "handleWebSocketClose s =
     (let s1 = connection_addLogEntry (Message ''Connexion WebSocket fermee'') LWarning
                 (s\<lparr>isConnected := False\<rparr>);
          s2 = s1\<lparr>dispatched := dispatched s1 @ [''websocketDisconnected'']\<rparr>
      in s2\<lparr>reconnect_timers := reconnect_timers s2 @ [(next_handle s2, 3000)],
            next_handle := Suc (next_handle s2)\<rparr>)"

text \<open>The callback given to \<open>setTimeout\<close> by the close handler.\<close>

definition reconnect_check :: "connection \<Rightarrow> connection" where
  "reconnect_check s =
     (if \<not> isConnected s
      then initializeWebSocket (connection_addLogEntry (Message ''Tentative de reconnexion...'') LInfo s)
      else s)"

text \<open>
  The event loop runs the callback of a pending timeout once and forgets the timeout; a
  handle that is not pending fires nothing.
\<close>

definition fire_reconnect_timer :: "nat \<Rightarrow> connection \<Rightarrow> connection" where
  "fire_reconnect_timer h s =
     (if h \<in> fst ` set (reconnect_timers s)
      then reconnect_check (s\<lparr>reconnect_timers := filter (\<lambda>(i, d). i \<noteq> h) (reconnect_timers s)\<rparr>)
      else s)"

text \<open>A session connected through its first socket, with no timeout pending.\<close>

definition connected_session :: connection where
  "connected_session =
     \<lparr>isConnected = True, ws = Some 0, sockets_created = 1, reconnect_timers = [],
      next_handle = 1, connection_log = [], dispatched = [], config_loads = 1,
      wsUrl = ''ws://localhost:8000/ws''\<rparr>"

section \<open>Configuration sync engine (settings-modal.js)\<close>

text \<open>
  What lies outside the module: the stored \<open>jarvis-settings\<close> object of local storage
  (\<open>None\<close> while the key is absent; only objects are ever written to it) and, in
  \<open>view\<close>, everything the theme manager owns (the page's styling and its own storage
  keys).
\<close>

record 'v world =
  jarvis_settings :: "jsobj option"
  view :: 'v

text \<open>
  The theme manager's functions \<open>setTheme\<close>, \<open>setBackground\<close> and
  \<open>setBackgroundOpacity\<close>, by name: the changed world and whether the call threw.
\<close>

type_synonym 'v theme_manager = "string \<Rightarrow> jsval \<Rightarrow> 'v world \<Rightarrow> 'v world \<times> bool"

datatype callback = FlushVisualPreview | LocalStorageSave

text \<open>
  The module's globals, the timeouts it has pending (handle, delay in ms, callback) and
  the state of the modal: \<open>modal_shown\<close> is \<open>None\<close> when the modal element is missing.
\<close>

record 'v settings_engine =
  previewTimer :: "nat option"
  localStorageTimer :: "nat option"
  batchedChanges :: jsobj
  lastAppliedValues :: jsobj
  pending :: "(nat \<times> nat \<times> callback) list"
  next_id :: nat
  world :: "'v world"
  modal_shown :: "bool option"
  settingsModalOpen :: bool
  engine_log :: "log_entry list"

definition PREVIEW_DEBOUNCE_DELAY :: nat where
  "PREVIEW_DEBOUNCE_DELAY = 250"

definition LOCALSTORAGE_DEBOUNCE_DELAY :: nat where
  "LOCALSTORAGE_DEBOUNCE_DELAY = 500"

record visual_field =
  field_key :: string
  field_handler :: string
  immediate :: bool

definition VISUAL_FIELDS :: "(string \<times> visual_field) list" where
  "VISUAL_FIELDS =
     [(''interface-background'',
         \<lparr>field_key = ''background'', field_handler = ''setBackground'', immediate = False\<rparr>),
      (''background-opacity'',
         \<lparr>field_key = ''background_opacity'', field_handler = ''setBackgroundOpacity'', immediate = True\<rparr>)]"

definition cancel :: "nat \<Rightarrow> 'v settings_engine \<Rightarrow> 'v settings_engine" where
  "cancel h s = s\<lparr>pending := filter (\<lambda>(i, d, c). i \<noteq> h) (pending s)\<rparr>"

text \<open>\<open>if (timer) clearTimeout(timer)\<close>: the variable keeps the handle.\<close>

definition cancel_if_set :: "nat option \<Rightarrow> 'v settings_engine \<Rightarrow> 'v settings_engine" where
  "cancel_if_set t s = (case t of None \<Rightarrow> s | Some h \<Rightarrow> cancel h s)"

text \<open>\<open>Object.assign(target, source)\<close>.\<close>

definition obj_assign :: "jsobj \<Rightarrow> jsobj \<Rightarrow> jsobj" where
  "obj_assign target source = fold (\<lambda>(k, v) t. AList.update k v t) source target"

definition applyVisualChange ::
  "'v theme_manager \<Rightarrow> string \<Rightarrow> jsval \<Rightarrow> string \<Rightarrow> 'v settings_engine \<Rightarrow> 'v settings_engine" where
  "applyVisualChange tm key val handlerName s =
     (if strict_eq (get_prop (lastAppliedValues s) key) val then s
      else
        let s1 = s\<lparr>lastAppliedValues := AList.update key val (lastAppliedValues s)\<rparr> in
        if handlerName = ''setTheme'' \<or> handlerName = ''setBackground'' \<or>
           handlerName = ''setBackgroundOpacity''
        then s1\<lparr>world := fst (tm handlerName val (world s1))\<rparr>
        else s1)"

definition debouncedLocalStorageSave :: "'v settings_engine \<Rightarrow> 'v settings_engine" where
  "debouncedLocalStorageSave s =
     (let s1 = cancel_if_set (localStorageTimer s) s in
      s1\<lparr>pending := pending s1 @ [(next_id s1, LOCALSTORAGE_DEBOUNCE_DELAY, LocalStorageSave)],
         localStorageTimer := Some (next_id s1),
         next_id := Suc (next_id s1)\<rparr>)"

text \<open>The callback of the storage timeout; it reads \<open>batchedChanges\<close> when it runs.\<close>

definition storage_save_callback :: "'v settings_engine \<Rightarrow> 'v settings_engine" where
  "storage_save_callback s =
     (let savedSettings = (case jarvis_settings (world s) of None \<Rightarrow> [] | Some obj \<Rightarrow> obj) in
      s\<lparr>world := (world s)\<lparr>jarvis_settings := Some (obj_assign savedSettings (batchedChanges s))\<rparr>\<rparr>)"

definition flushVisualPreview :: "'v theme_manager \<Rightarrow> 'v settings_engine \<Rightarrow> 'v settings_engine" where
  "flushVisualPreview tm s =
     debouncedLocalStorageSave
       (fold (\<lambda>(key, val) s'.
                case find (\<lambda>f. field_key f = key) (map snd VISUAL_FIELDS) of
                  None \<Rightarrow> s'
                | Some field \<Rightarrow>
                    if \<not> immediate field then applyVisualChange tm key val (field_handler field) s'
                    else s')
          (batchedChanges s) s)"

definition triggerVisualPreview ::
  "'v theme_manager \<Rightarrow> string \<Rightarrow> jsval \<Rightarrow> 'v settings_engine \<Rightarrow> 'v settings_engine" where
  "triggerVisualPreview tm elementId val s =
     (case map_of VISUAL_FIELDS elementId of
        None \<Rightarrow> s
      | Some field \<Rightarrow>
          let s1 = s\<lparr>batchedChanges := AList.update (field_key field) val (batchedChanges s)\<rparr> in
          if immediate field then applyVisualChange tm (field_key field) val (field_handler field) s1
          else
            let s2 = cancel_if_set (previewTimer s1) s1 in
            s2\<lparr>pending := pending s2 @ [(next_id s2, PREVIEW_DEBOUNCE_DELAY, FlushVisualPreview)],
               previewTimer := Some (next_id s2),
               next_id := Suc (next_id s2)\<rparr>)"

definition flushBatchedChanges :: "'v theme_manager \<Rightarrow> 'v settings_engine \<Rightarrow> 'v settings_engine" where
  "flushBatchedChanges tm s =
     (let s1 = (case previewTimer s of
                  None \<Rightarrow> s
                | Some h \<Rightarrow> flushVisualPreview tm (cancel h s));
          s2 = (case localStorageTimer s1 of
                  None \<Rightarrow> s1
                | Some h \<Rightarrow> debouncedLocalStorageSave (cancel h s1))
      in s2\<lparr>batchedChanges := []\<rparr>)"

definition resetPreviewState :: "'v settings_engine \<Rightarrow> 'v settings_engine" where
  "resetPreviewState s =
     (cancel_if_set (localStorageTimer s) (cancel_if_set (previewTimer s) s))
       \<lparr>batchedChanges := [], lastAppliedValues := []\<rparr>"

definition closeSettings :: "'v theme_manager \<Rightarrow> 'v settings_engine \<Rightarrow> 'v settings_engine" where
  "closeSettings tm s =
     (let s1 = flushBatchedChanges tm s in
      case modal_shown s1 of
        None \<Rightarrow> s1
      | Some shown \<Rightarrow>
          s1\<lparr>modal_shown := Some False, settingsModalOpen := False,
             engine_log := engine_log s1 @ [(Message ''Parametres fermes'', LInfo)]\<rparr>)"

text \<open>
  The event loop runs a pending timeout: the timeout is forgotten and its callback runs.
  A handle that is not pending fires nothing.
\<close>

definition fire :: "'v theme_manager \<Rightarrow> nat \<Rightarrow> 'v settings_engine \<Rightarrow> 'v settings_engine" where
  "fire tm h s =
     (case find (\<lambda>(i, d, c). i = h) (pending s) of
        None \<Rightarrow> s
      | Some (i, d, c) \<Rightarrow>
          (case c of
             FlushVisualPreview \<Rightarrow> flushVisualPreview tm (cancel h s)
           | LocalStorageSave \<Rightarrow> storage_save_callback (cancel h s)))"

text \<open>JavaScript truthiness, for \<open>if (changes.theme)\<close>.\<close>

fun truthy :: "jsval \<Rightarrow> bool" where
  "truthy Undefined = False"
| "truthy Null = False"
| "truthy (Bool b) = b"
| "truthy (Num n) = (n \<noteq> 0)"
| "truthy (Str s) = (s \<noteq> [])"
| "truthy (Arr xs) = True"
| "truthy (Obj kvs) = True"




text \<open>
  A concrete theme manager, from theme-manager.js, for running the engine on an example.
  The page: whether the dialogue section exists, the image URL and the opacity it shows,
  and the theme manager's own storage keys \<open>jarvis-background\<close> and
  \<open>jarvis-background-opacity\<close>. \<open>setBackground\<close> expects a string (\<open>startsWith\<close> throws
  on any other truthy value). Its log calls are left out. \<open>setTheme\<close> is not reached on
  the examples and is left without effect here.
\<close>

record page =
  dialogue_section :: bool
  bg_image_url :: "string option"
  bg_opacity :: "jsval option"
  stored_background :: "string option"
  stored_opacity :: "jsval option"

definition setBackground :: "jsval \<Rightarrow> page world \<Rightarrow> page world \<times> bool" where
  "setBackground backgroundPath w =
     (if \<not> dialogue_section (view w) then (w, False)
      else
        let w1 = w\<lparr>view := (view w)\<lparr>bg_image_url := None\<rparr>\<rparr> in
        if truthy backgroundPath \<and> backgroundPath \<noteq> Str ''default''
        then (case backgroundPath of
                Str path \<Rightarrow>
                  let imagePath = (if take 7 path = ''images/'' then ''static/'' @ path
                                   else ''static/images/'' @ path)
                  in (w1\<lparr>view := (view w1)\<lparr>bg_image_url := Some imagePath,
                                               stored_background := Some path\<rparr>\<rparr>, False)
              | _ \<Rightarrow> (w1, True))
        else (w1\<lparr>view := (view w1)\<lparr>stored_background := Some ''default''\<rparr>\<rparr>, False))"

definition setBackgroundOpacity :: "jsval \<Rightarrow> page world \<Rightarrow> page world \<times> bool" where
  "setBackgroundOpacity opacity w =
     (w\<lparr>view := (view w)\<lparr>bg_opacity := Some opacity, stored_opacity := Some opacity\<rparr>\<rparr>, False)"

definition page_theme_manager :: "page theme_manager" where
  "page_theme_manager name val w =
     (if name = ''setBackground'' then setBackground val w
      else if name = ''setBackgroundOpacity'' then setBackgroundOpacity val w
      else (w, False))"

text \<open>
  The settings modal is open, \<open>jarvis-settings\<close> holds a theme, nothing is pending; then
  the user picks the background \<open>space.png\<close> in the select \<open>interface-background\<close>.
\<close>

definition modal_open :: "page settings_engine" where
  "modal_open =
     \<lparr>previewTimer = None, localStorageTimer = None, batchedChanges = [], lastAppliedValues = [],
      pending = [], next_id = 1,
      world = \<lparr>jarvis_settings = Some [(''theme'', Str ''dark'')],
               view = \<lparr>dialogue_section = True, bg_image_url = None, bg_opacity = None,
                       stored_background = None, stored_opacity = None\<rparr>\<rparr>,
      modal_shown = Some True, settingsModalOpen = True, engine_log = []\<rparr>"

definition background_picked :: "page settings_engine" where
  "background_picked =
     triggerVisualPreview page_theme_manager ''interface-background'' (Str ''space.png'') modal_open"



section \<open>Settings commit: waiting for the correlated response (saveSettingsFromModal)\<close>

text \<open>
  The part of \<open>saveSettingsFromModal\<close> from the creation of the promise on: its
  executor, the two callbacks that can resolve it, and the code after \<open>await\<close>. The
  record holds what one commit does: the settled value of the promise (\<open>None\<close> while it
  is pending), the delay of its timeout while that is pending, whether \<open>handleResponse\<close>
  is registered on the socket, the object \<open>allChangesToSave\<close>, the \<open>config_update\<close>
  messages handed to the socket, the log calls, and whether \<open>closeSettings\<close> has been
  called. The socket is the same during the wait.
\<close>

record commit_wait =
  outcome :: "bool option"
  deadline :: "nat option"
  listening :: bool
  request :: jsobj
  sent :: "jsobj list"
  commit_log :: "log_entry list"
  modal_closed :: bool

definition new_commit :: commit_wait where
  "new_commit =
     \<lparr>outcome = None, deadline = None, listening = False, request = [], sent = [],
      commit_log = [], modal_closed = False\<rparr>"

text \<open>
  \<open>resolve(success)\<close> together with the code after \<open>await\<close>, which runs once the
  promise is settled. Resolving a settled promise does nothing. On failure the function
  throws and its own \<open>catch\<close> logs the error.
\<close>

definition settle :: "bool \<Rightarrow> commit_wait \<Rightarrow> commit_wait" where
  "settle success c =
     (case outcome c of
        Some r \<Rightarrow> c
      | None \<Rightarrow>
          let c1 = c\<lparr>outcome := Some success\<rparr> in
          if success
          then c1\<lparr>commit_log := commit_log c1 @ [(SettingsSaved (length (request c1)), LSuccess)],
                  modal_closed := True\<rparr>
          else c1\<lparr>commit_log := commit_log c1 @
                    [(Message ''Erreur sauvegarde: Timeout ou erreur serveur'', LError)]\<rparr>)"

text \<open>What \<open>sendWebSocketMessage\<close> meets: an open socket, no open socket, or a throwing \<open>send\<close>.\<close>

datatype send_result = SendOk | NotOpen | SendThrew string

text \<open>The executor of the promise.\<close>

definition begin_wait :: "send_result \<Rightarrow> jsobj \<Rightarrow> commit_wait \<Rightarrow> commit_wait" where
  "begin_wait r allChangesToSave c =
     (let c1 = c\<lparr>deadline := Some 5000, listening := True, request := allChangesToSave\<rparr> in
      case r of
        SendOk \<Rightarrow> c1\<lparr>sent := sent c1 @ [allChangesToSave]\<rparr>
      | NotOpen \<Rightarrow>
          settle False
            (c1\<lparr>commit_log := commit_log c1 @ [(Message ''WebSocket non connecte'', LError)],
                deadline := None\<rparr>)
      | SendThrew m \<Rightarrow>
          settle False
            (c1\<lparr>commit_log := commit_log c1 @ [(Message (''Erreur envoi WebSocket: '' @ m), LError)],
                deadline := None\<rparr>))"

text \<open>
  \<open>handleResponse\<close> on a message event. The data is \<open>None\<close> when parsing it or reading
  its type throws, which the handler swallows.
\<close>

definition handleResponse :: "envelope option \<Rightarrow> commit_wait \<Rightarrow> commit_wait" where
  "handleResponse raw c =
     (case raw of
        None \<Rightarrow> c
      | Some data \<Rightarrow>
          if etype data = ''config_updated''
          then settle (strict_eq (get_prop (payload data) ''success'') (Bool True))
                 (c\<lparr>deadline := None, listening := False\<rparr>)
          else c)"

text \<open>
  What the event loop can deliver during and after the wait: a message on the socket,
  which reaches \<open>handleResponse\<close> while it is registered, and the timeout, which runs
  \<open>resolve(false)\<close> if it is still pending.
\<close>

datatype wait_event = Inbound "envelope option" | DeadlineElapsed

fun wait_step :: "wait_event \<Rightarrow> commit_wait \<Rightarrow> commit_wait" where
  "wait_step (Inbound raw) c = (if listening c then handleResponse raw c else c)"
| "wait_step DeadlineElapsed c =
     (case deadline c of None \<Rightarrow> c | Some d \<Rightarrow> settle False (c\<lparr>deadline := None\<rparr>))"

fun wait_run :: "wait_event list \<Rightarrow> commit_wait \<Rightarrow> commit_wait" where
  "wait_run [] c = c"
| "wait_run (e # es) c = wait_run es (wait_step e c)"

text \<open>An event that is neither the timeout nor a \<open>config_updated\<close> message.\<close>

fun unrelated :: "wait_event \<Rightarrow> bool" where
  "unrelated (Inbound None) = True"
| "unrelated (Inbound (Some data)) = (etype data \<noteq> ''config_updated'')"
| "unrelated DeadlineElapsed = False"

text \<open>
  The two situations of a commit whose request was sent. While the wait is open the
  promise and the timeout are pending and nothing has been reported; once the promise is
  settled no timeout is pending.
\<close>

definition waiting :: "jsobj \<Rightarrow> commit_wait \<Rightarrow> bool" where
  "waiting changes c \<longleftrightarrow>
     outcome c = None \<and> deadline c = Some 5000 \<and> listening c \<and> sent c = [changes] \<and>
     commit_log c = [] \<and> \<not> modal_closed c"

definition settled :: "commit_wait \<Rightarrow> bool" where
  "settled c \<longleftrightarrow> outcome c \<noteq> None \<and> deadline c = None"

text \<open>Messages of an example session: a keep-alive answer and a positive confirmation.\<close>

definition pong_message :: envelope where
  "pong_message = \<lparr>etype = ''pong'', payload = []\<rparr>"

definition config_updated_ok :: envelope where
  "config_updated_ok =
     \<lparr>etype = ''config_updated'', payload = [(''success'', Bool True), (''message'', Str ''ok'')]\<rparr>"

section \<open>Properties of the session statistics\<close>

lemma updateTTSEfficiency_bounds:
  "0 \<le> ttsEfficiency s \<and> ttsEfficiency s \<le> 100 \<Longrightarrow>
   0 \<le> ttsEfficiency (updateTTSEfficiency b s) \<and> ttsEfficiency (updateTTSEfficiency b s) \<le> 100"
  by (simp add: updateTTSEfficiency_def)

lemma updateTTSEfficiency_calls_bounds:
  "0 \<le> ttsEfficiency s \<and> ttsEfficiency s \<le> 100 \<Longrightarrow>
   0 \<le> ttsEfficiency (updateTTSEfficiency_calls bs s) \<and>
   ttsEfficiency (updateTTSEfficiency_calls bs s) \<le> 100"
proof (induction bs arbitrary: s)
  case Nil
  then show ?case by simp
next
  case (Cons b bs)
  have "0 \<le> ttsEfficiency (updateTTSEfficiency b s) \<and> ttsEfficiency (updateTTSEfficiency b s) \<le> 100"
    using Cons.prems by (rule updateTTSEfficiency_bounds)
  then show ?case using Cons.IH by simp
qed

text \<open>
  Claim C10. The TTS efficiency starts at 100 (initially and after \<open>resetStats\<close>); after any
  sequence of \<open>updateTTSEfficiency\<close> calls it lies in the closed interval from 0 to 100; a
  success sets it to the minimum of 100 and the old value plus 0.1, a failure to the maximum
  of 0 and the old value minus 1.
\<close>

theorem C10_ttsEfficiency_range:
  "ttsEfficiency initial_stats = 100 \<and>
   ttsEfficiency (resetStats s0) = 100 \<and>
   0 \<le> ttsEfficiency (updateTTSEfficiency_calls bs initial_stats) \<and>
   ttsEfficiency (updateTTSEfficiency_calls bs initial_stats) \<le> 100 \<and>
   0 \<le> ttsEfficiency (updateTTSEfficiency_calls bs (resetStats s0)) \<and>
   ttsEfficiency (updateTTSEfficiency_calls bs (resetStats s0)) \<le> 100 \<and>
   ttsEfficiency (updateTTSEfficiency True s) = min 100 (ttsEfficiency s + 1 / 10) \<and>
   ttsEfficiency (updateTTSEfficiency False s) = max 0 (ttsEfficiency s - 1)"
proof -
  have i: "0 \<le> ttsEfficiency initial_stats \<and> ttsEfficiency initial_stats \<le> 100"
    by (simp add: initial_stats_def)
  have r: "0 \<le> ttsEfficiency (resetStats s0) \<and> ttsEfficiency (resetStats s0) \<le> 100"
    by (simp add: resetStats_def)
  show ?thesis
    using updateTTSEfficiency_calls_bounds [OF i, of bs]
      updateTTSEfficiency_calls_bounds [OF r, of bs]
    by (simp add: initial_stats_def resetStats_def updateTTSEfficiency_def)
qed

section \<open>Properties of the settings diff\<close>

lemma gcs_loop_Cons:
  "gcs_loop current ((key, newValue) # rest) changes =
     gcs_loop current rest
       (if entry_changed current key newValue then AList.update key newValue changes else changes)"
  by (simp add: entry_changed_def getChangedSettings_def Let_def split: jsval.splits)

lemma gcs_loop_Nil_iff:
  "gcs_loop current new changes = [] \<longleftrightarrow>
     changes = [] \<and> (\<forall>(k, v) \<in> set new. \<not> entry_changed current k v)"
proof (induction new arbitrary: changes)
  case Nil
  then show ?case by simp
next
  case (Cons e new)
  obtain k v where e: "e = (k, v)" by (cases e)
  show ?case
    unfolding e gcs_loop_Cons Cons.IH
    by auto
qed

lemma map_of_gcs_loop:
  "distinct (map fst new) \<Longrightarrow>
   map_of (gcs_loop current new changes) k =
     (case map_of new k of
        Some v \<Rightarrow> if entry_changed current k v then Some v else map_of changes k
      | None \<Rightarrow> map_of changes k)"
proof (induction new arbitrary: changes)
  case Nil
  then show ?case by simp
next
  case (Cons e new)
  obtain k' v' where e: "e = (k', v')" by (cases e)
  from Cons.prems have d: "distinct (map fst new)" and nk: "k' \<notin> fst ` set new"
    by (simp_all add: e)
  from nk have none: "map_of new k' = None"
    by (simp add: map_of_eq_None_iff)
  show ?case
    unfolding e gcs_loop_Cons Cons.IH [OF d]
    using none by (auto simp: update_conv' split: option.splits)
qed

lemma spec_leaf_differs_entry_changed:
  "spec_leaf_differs (get_prop current k) v \<Longrightarrow> entry_changed current k v"
proof (induction "get_prop current k" v arbitrary: current k rule: spec_leaf_differs.induct)
  case (1 newObj)
  show ?case
  proof (cases "get_prop current k")
    case (Obj curObj)
    from "1.prems" Obj obtain k' v' where mem: "(k', v') \<in> set newObj"
      and d: "spec_leaf_differs (get_prop curObj k') v'"
      by auto
    have "entry_changed curObj k' v'"
      using "1.hyps" [OF mem refl _ d] Obj by simp
    with mem have "gcs_loop curObj newObj [] \<noteq> []"
      by (auto simp: gcs_loop_Nil_iff)
    then show ?thesis
      by (simp add: entry_changed_def Obj getChangedSettings_def)
  qed (simp_all add: entry_changed_def)
qed (simp_all add: entry_changed_def)

text \<open>
  Claim C4. With baseline \<open>{a:{x:1,y:2}}\<close> and proposal \<open>{a:{x:1,y:3}}\<close> the diff is
  \<open>{a:{x:1,y:3}}\<close>, the whole nested object, and not \<open>{a:{y:3}}\<close>. In general, for a
  proposal with distinct keys, a nested object of the proposal beneath which some leaf
  differs from the baseline is put into the diff whole, under its key.
\<close>

theorem C4_whole_branch:
  "getChangedSettings [(''a'', Obj [(''x'', Num 1), (''y'', Num 2)])]
       [(''a'', Obj [(''x'', Num 1), (''y'', Num 3)])]
     = [(''a'', Obj [(''x'', Num 1), (''y'', Num 3)])] \<and>
   getChangedSettings [(''a'', Obj [(''x'', Num 1), (''y'', Num 2)])]
       [(''a'', Obj [(''x'', Num 1), (''y'', Num 3)])]
     \<noteq> [(''a'', Obj [(''y'', Num 3)])] \<and>
   (distinct (map fst newSettings) \<longrightarrow>
    map_of newSettings k = Some (Obj newObj) \<longrightarrow>
    spec_leaf_differs (get_prop current k) (Obj newObj) \<longrightarrow>
    map_of (getChangedSettings current newSettings) k = Some (Obj newObj))"
proof -
  have ex: "getChangedSettings [(''a'', Obj [(''x'', Num 1), (''y'', Num 2)])]
       [(''a'', Obj [(''x'', Num 1), (''y'', Num 3)])]
     = [(''a'', Obj [(''x'', Num 1), (''y'', Num 3)])]"
    by (simp add: getChangedSettings_def get_prop_def)
  have gen: "map_of (getChangedSettings current newSettings) k = Some (Obj newObj)"
    if "distinct (map fst newSettings)" "map_of newSettings k = Some (Obj newObj)"
      "spec_leaf_differs (get_prop current k) (Obj newObj)"
    using that spec_leaf_differs_entry_changed [of current k "Obj newObj"]
    by (simp add: getChangedSettings_def map_of_gcs_loop)
  show ?thesis
    using gen by (simp add: ex)
qed

theorem C4_whole_branch_witness:
  "distinct (map fst [(''llm'', Obj [(''model'', Str ''m1''), (''opts'', Obj [(''temperature'', Num (9 / 10))])]),
                      (''theme'', Str ''dark'')]) \<and>
   map_of [(''llm'', Obj [(''model'', Str ''m1''), (''opts'', Obj [(''temperature'', Num (9 / 10))])]),
           (''theme'', Str ''dark'')] ''llm''
     = Some (Obj [(''model'', Str ''m1''), (''opts'', Obj [(''temperature'', Num (9 / 10))])]) \<and>
   spec_leaf_differs
     (get_prop [(''llm'', Obj [(''model'', Str ''m1''), (''opts'', Obj [(''temperature'', Num (7 / 10))])]),
                (''theme'', Str ''dark'')] ''llm'')
     (Obj [(''model'', Str ''m1''), (''opts'', Obj [(''temperature'', Num (9 / 10))])]) \<and>
   map_of (getChangedSettings
       [(''llm'', Obj [(''model'', Str ''m1''), (''opts'', Obj [(''temperature'', Num (7 / 10))])]),
        (''theme'', Str ''dark'')]
       [(''llm'', Obj [(''model'', Str ''m1''), (''opts'', Obj [(''temperature'', Num (9 / 10))])]),
        (''theme'', Str ''dark'')]) ''llm''
     = Some (Obj [(''model'', Str ''m1''), (''opts'', Obj [(''temperature'', Num (9 / 10))])])"
  using C4_whole_branch
    [of "[(''llm'', Obj [(''model'', Str ''m1''), (''opts'', Obj [(''temperature'', Num (9 / 10))])]),
          (''theme'', Str ''dark'')]"
        "''llm''"
        "[(''model'', Str ''m1''), (''opts'', Obj [(''temperature'', Num (9 / 10))])]"
        "[(''llm'', Obj [(''model'', Str ''m1''), (''opts'', Obj [(''temperature'', Num (7 / 10))])]),
          (''theme'', Str ''dark'')]"]
  by (simp add: get_prop_def)



section \<open>Properties of the streaming response assembler\<close>

lemma resetTokenBuffer_fields:
  "tokenBuffer (resetTokenBuffer s) = []"
  "bufferFlushTimer (resetTokenBuffer s) = None"
  "dialogue (resetTokenBuffer s) = dialogue s"
  "next_timer (resetTokenBuffer s) = next_timer s"
  "timers (resetTokenBuffer s) =
     (case bufferFlushTimer s of None \<Rightarrow> timers s | Some h \<Rightarrow> filter (\<lambda>(i, d). i \<noteq> h) (timers s))"
  by (simp_all add: resetTokenBuffer_def clearTimeout_def Let_def split: option.splits)

lemma update_current_id: "\<not> list_ex current_response bs \<Longrightarrow> update_current f bs = bs"
  by (induction bs) auto

lemma flushTokenBuffer_nonempty:
  assumes "tokenBuffer s \<noteq> []"
  shows "tokenBuffer (flushTokenBuffer s) = []"
    and "bufferFlushTimer (flushTokenBuffer s) = None"
    and "timers (flushTokenBuffer s) =
      (case bufferFlushTimer s of None \<Rightarrow> timers s | Some h \<Rightarrow> filter (\<lambda>(i, d). i \<noteq> h) (timers s))"
    and "dialogue (flushTokenBuffer s) = map_option (update_current (append_text (tokenBuffer s))) (dialogue s)"
  using assms
  by (auto simp: flushTokenBuffer_def resetTokenBuffer_fields update_current_id split: option.splits)

lemma pending_turn_eq:
  "pending_turn =
     \<lparr>tokenBuffer = ''ab'', bufferFlushTimer = Some 1, timers = [(1, 100)], next_timer = 2,
      dialogue = Some [\<lparr>role = Assistant, current_response = True, content = Some ''Hello'', time_stamp = False\<rparr>]\<rparr>"
  by (simp add: pending_turn_def appendToCurrentResponse_def startNewAssistantResponse_def
      initial_assembler_def flushTokenBuffer_def resetTokenBuffer_def createMessageBubble_def
      append_text_def clearTimeout_def BATCH_SIZE_def BATCH_TIMEOUT_def Let_def)

text \<open>
  Claim C1, as stated, fails. In \<open>pending_turn\<close> a turn is open and \<open>ab\<close> is buffered;
  after \<open>startNewAssistantResponse\<close> the buffer is empty, no timer is pending, and the
  earlier turn still shows \<open>Hello\<close> only: the fragment \<open>ab\<close> is in no visible text.
\<close>

theorem C1_pending_content_discarded:
  "tokenBuffer pending_turn = ''ab'' \<and>
   dialogue pending_turn =
     Some [\<lparr>role = Assistant, current_response = True, content = Some ''Hello'', time_stamp = False\<rparr>] \<and>
   tokenBuffer (startNewAssistantResponse pending_turn) = [] \<and>
   timers (startNewAssistantResponse pending_turn) = [] \<and>
   dialogue (startNewAssistantResponse pending_turn) =
     Some [\<lparr>role = Assistant, current_response = True, content = Some ''Hello'', time_stamp = False\<rparr>,
           \<lparr>role = Assistant, current_response = True, content = Some [], time_stamp = False\<rparr>]"
  by (simp add: pending_turn_eq startNewAssistantResponse_def resetTokenBuffer_def clearTimeout_def
      createMessageBubble_def Let_def)

text \<open>
  Claim C1, amended. \<open>startNewAssistantResponse\<close> clears the buffer and cancels the
  deferred flush without flushing: afterwards the buffer is empty, no flush timer is
  stored or pending, the text of every earlier transcript entry is what it was, and a new
  empty assistant entry marked as the current response ends the transcript (when the
  dialogue container exists).
\<close>

theorem C1_begin_turn_resets:
  "tokenBuffer (startNewAssistantResponse s) = [] \<and>
   bufferFlushTimer (startNewAssistantResponse s) = None \<and>
   timers (startNewAssistantResponse s) =
     (case bufferFlushTimer s of None \<Rightarrow> timers s | Some h \<Rightarrow> filter (\<lambda>(i, d). i \<noteq> h) (timers s)) \<and>
   (case dialogue s of
      None \<Rightarrow> dialogue (startNewAssistantResponse s) = None
    | Some bs \<Rightarrow>
        (\<exists>bs'. dialogue (startNewAssistantResponse s) =
                 Some (bs' @ [\<lparr>role = Assistant, current_response = True, content = Some [], time_stamp = False\<rparr>]) \<and>
               map content bs' = map content bs))"
proof (cases "dialogue s")
  case None
  then show ?thesis
    by (simp add: startNewAssistantResponse_def resetTokenBuffer_fields Let_def)
next
  case (Some bs)
  have "dialogue (startNewAssistantResponse s) =
      Some (bs @ [\<lparr>role = Assistant, current_response = True, content = Some [], time_stamp = False\<rparr>])"
    by (simp add: startNewAssistantResponse_def resetTokenBuffer_fields Some createMessageBubble_def Let_def)
  then show ?thesis
    by (simp add: Some startNewAssistantResponse_def resetTokenBuffer_fields Let_def)
qed

text \<open>
  Claim C3. \<open>appendToCurrentResponse\<close> first appends the fragment to the buffer. If the
  buffer is then at least 5 long, or the fragment contains a line feed or one of
  \<open>.\<close>, \<open>!\<close>, \<open>?\<close>, the whole buffer is flushed within the call: it is appended to the
  text of the current response, the buffer is left empty and the flush timer is cancelled
  and forgotten. Otherwise nothing is flushed: the transcript is unchanged, the buffer
  keeps the fragment, the previous timer is cancelled and one new timer of 100 ms is
  pending and stored. After the call no timer is stored exactly when the condition held.
\<close>

theorem C3_flush_decision:
  "(5 \<le> length (tokenBuffer s @ token) \<or> CHR 0x0A \<in> set token \<or>
      CHR ''.'' \<in> set token \<or> CHR ''!'' \<in> set token \<or> CHR ''?'' \<in> set token \<longrightarrow>
      tokenBuffer (appendToCurrentResponse token s) = [] \<and>
      dialogue (appendToCurrentResponse token s) =
        map_option (update_current (append_text (tokenBuffer s @ token))) (dialogue s) \<and>
      bufferFlushTimer (appendToCurrentResponse token s) = None \<and>
      timers (appendToCurrentResponse token s) =
        (case bufferFlushTimer s of None \<Rightarrow> timers s | Some h \<Rightarrow> filter (\<lambda>(i, d). i \<noteq> h) (timers s))) \<and>
   (\<not> (5 \<le> length (tokenBuffer s @ token) \<or> CHR 0x0A \<in> set token \<or>
      CHR ''.'' \<in> set token \<or> CHR ''!'' \<in> set token \<or> CHR ''?'' \<in> set token) \<longrightarrow>
      tokenBuffer (appendToCurrentResponse token s) = tokenBuffer s @ token \<and>
      dialogue (appendToCurrentResponse token s) = dialogue s \<and>
      bufferFlushTimer (appendToCurrentResponse token s) = Some (next_timer s) \<and>
      timers (appendToCurrentResponse token s) =
        (case bufferFlushTimer s of None \<Rightarrow> timers s | Some h \<Rightarrow> filter (\<lambda>(i, d). i \<noteq> h) (timers s))
        @ [(next_timer s, 100)]) \<and>
   ((bufferFlushTimer (appendToCurrentResponse token s) = None) =
    (5 \<le> length (tokenBuffer s @ token) \<or> CHR 0x0A \<in> set token \<or>
      CHR ''.'' \<in> set token \<or> CHR ''!'' \<in> set token \<or> CHR ''?'' \<in> set token))"
proof -
  let ?now = "BATCH_SIZE \<le> length (tokenBuffer s @ token) \<or> CHR 0x0A \<in> set token \<or>
         (\<exists>c \<in> set token. c = CHR ''.'' \<or> c = CHR ''!'' \<or> c = CHR ''?'')"
  let ?s1 = "s\<lparr>tokenBuffer := tokenBuffer s @ token\<rparr>"
  have cond: "?now = (5 \<le> length (tokenBuffer s @ token) \<or> CHR 0x0A \<in> set token \<or>
      CHR ''.'' \<in> set token \<or> CHR ''!'' \<in> set token \<or> CHR ''?'' \<in> set token)"
    by (auto simp: BATCH_SIZE_def)
  show ?thesis
  proof (cases ?now)
    case True
    then have ne: "tokenBuffer ?s1 \<noteq> []"
      by (auto simp: BATCH_SIZE_def)
    have eq: "appendToCurrentResponse token s = flushTokenBuffer ?s1"
      using True by (simp add: appendToCurrentResponse_def Let_def)
    show ?thesis
      using True cond flushTokenBuffer_nonempty [OF ne]
      by (simp add: eq cong: option.case_cong)
  next
    case False
    then have eq: "appendToCurrentResponse token s =
        (let s2 = (case bufferFlushTimer ?s1 of None \<Rightarrow> ?s1 | Some h \<Rightarrow> clearTimeout h ?s1) in
         s2\<lparr>timers := timers s2 @ [(next_timer s2, BATCH_TIMEOUT)],
            bufferFlushTimer := Some (next_timer s2),
            next_timer := Suc (next_timer s2)\<rparr>)"
      by (simp add: appendToCurrentResponse_def Let_def)
    from False cond have n5: "\<not> (5 \<le> length (tokenBuffer s @ token) \<or> CHR 0x0A \<in> set token \<or>
      CHR ''.'' \<in> set token \<or> CHR ''!'' \<in> set token \<or> CHR ''?'' \<in> set token)"
      by simp
    show ?thesis
      using n5
      by (simp add: eq clearTimeout_def BATCH_TIMEOUT_def Let_def split: option.splits)
  qed
qed

text \<open>
  The two branches at \<open>pending_turn\<close> (buffer \<open>ab\<close>, timer 1 pending): the fragment
  \<open>c.\<close> is flushed at once although the buffer is only 4 long, the fragment \<open>c\<close>
  replaces timer 1 by timer 2.
\<close>

theorem C3_flush_decision_witness:
  "(5 \<le> length (tokenBuffer pending_turn @ ''c.'') \<or> CHR 0x0A \<in> set ''c.'' \<or>
      CHR ''.'' \<in> set ''c.'' \<or> CHR ''!'' \<in> set ''c.'' \<or> CHR ''?'' \<in> set ''c.'') \<and>
   tokenBuffer (appendToCurrentResponse ''c.'' pending_turn) = [] \<and>
   dialogue (appendToCurrentResponse ''c.'' pending_turn) =
     Some [\<lparr>role = Assistant, current_response = True, content = Some ''Helloabc.'', time_stamp = False\<rparr>] \<and>
   bufferFlushTimer (appendToCurrentResponse ''c.'' pending_turn) = None \<and>
   timers (appendToCurrentResponse ''c.'' pending_turn) = [] \<and>
   \<not> (5 \<le> length (tokenBuffer pending_turn @ ''c'') \<or> CHR 0x0A \<in> set ''c'' \<or>
      CHR ''.'' \<in> set ''c'' \<or> CHR ''!'' \<in> set ''c'' \<or> CHR ''?'' \<in> set ''c'') \<and>
   tokenBuffer (appendToCurrentResponse ''c'' pending_turn) = ''abc'' \<and>
   dialogue (appendToCurrentResponse ''c'' pending_turn) = dialogue pending_turn \<and>
   bufferFlushTimer (appendToCurrentResponse ''c'' pending_turn) = Some 2 \<and>
   timers (appendToCurrentResponse ''c'' pending_turn) = [(2, 100)]"
  using C3_flush_decision [of pending_turn "''c.''"] C3_flush_decision [of pending_turn "''c''"]
  by (simp add: pending_turn_eq append_text_def)

section \<open>Properties of the message router\<close>

text \<open>
  Claim C6. Dispatching an envelope whose type has no registered handler does not raise;
  it adds exactly one to the unknown-type counter, leaves the route table (and the rest of
  the page) unchanged and logs one warning naming the type, followed at most by the
  periodic summary. The envelope is counted in the total and in the per-type frequency.
\<close>

theorem C6_unknown_type_counted:
  assumes "messageRoutes s (etype data) = None"
  shows "\<exists>s'. routeWebSocketMessage run elapsed data s = Inr s' \<and>
     unknownTypes s' = unknownTypes s + 1 \<and>
     messageRoutes s' = messageRoutes s \<and>
     app s' = app s \<and>
     totalMessages s' = totalMessages s + 1 \<and>
     map_of (mostFrequent s') (etype data) =
       Some (case map_of (mostFrequent s) (etype data) of None \<Rightarrow> 1 | Some c \<Rightarrow> c + 1) \<and>
     (router_log s' =
        router_log s @ [(Message (''Type de message WebSocket inconnu: '' @ etype data), LWarning)] \<or>
      (\<exists>summary. router_log s' =
        router_log s @ [(Message (''Type de message WebSocket inconnu: '' @ etype data), LWarning),
                        (summary, LInfo)]))"
proof -
  let ?s2 = "s\<lparr>totalMessages := totalMessages s + 1,
      mostFrequent := AList.update (etype data)
        ((case map_of (mostFrequent s) (etype data) of None \<Rightarrow> 0 | Some c \<Rightarrow> c) + 1) (mostFrequent s),
      unknownTypes := unknownTypes s + 1,
      router_log := router_log s @ [(Message (''Type de message WebSocket inconnu: '' @ etype data), LWarning)],
      routingTimeSum := routingTimeSum s + elapsed\<rparr>"
  have r: "routeWebSocketMessage run elapsed data s =
      Inr (if totalMessages ?s2 mod 100 = 0 then logRoutingMetrics ?s2 else ?s2)"
    using assms by (simp add: routeWebSocketMessage_def router_addLogEntry_def Let_def)
  show ?thesis
  proof (cases "totalMessages ?s2 mod 100 = 0")
    case True
    then show ?thesis
      unfolding r
      by (simp add: logRoutingMetrics_def router_addLogEntry_def update_conv' split: option.splits)
  next
    case False
    then show ?thesis
      unfolding r
      by (simp add: update_conv' split: option.splits)
  qed
qed

theorem C6_unknown_type_counted_witness:
  "\<exists>s'. routeWebSocketMessage (\<lambda>h d s. (s, False)) (1 / 4) \<lparr>etype = ''telemetry'', payload = []\<rparr>
       \<lparr>messageRoutes = [''pong'' \<mapsto> (), ''llm_token'' \<mapsto> ()], totalMessages = 7, routingTimeSum = 3,
        unknownTypes = 2, mostFrequent = [(''llm_token'', 5), (''telemetry'', 2)],
        router_log = [], app = ()\<rparr> = Inr s' \<and>
     unknownTypes s' = 3 \<and> totalMessages s' = 8 \<and>
     map_of (mostFrequent s') ''telemetry'' = Some 3"
proof -
  let ?s = "\<lparr>messageRoutes = [''pong'' \<mapsto> (), ''llm_token'' \<mapsto> ()], totalMessages = 7, routingTimeSum = 3,
        unknownTypes = 2, mostFrequent = [(''llm_token'', 5), (''telemetry'', 2)],
        router_log = [], app = ()\<rparr> :: (unit, unit) router"
  have h: "messageRoutes ?s (etype \<lparr>etype = ''telemetry'', payload = []\<rparr>) = None"
    by simp
  from C6_unknown_type_counted [OF h, of "\<lambda>h d s. (s, False)" "1 / 4"]
  show ?thesis by auto
qed

section \<open>Properties of the connection manager\<close>

lemma fire_reconnect_timer_forgets:
  "h \<notin> fst ` set (reconnect_timers (fire_reconnect_timer h t))"
  by (auto simp: fire_reconnect_timer_def reconnect_check_def initializeWebSocket_def
      connection_addLogEntry_def Let_def)

text \<open>
  Claim C8. A close event marks the session disconnected, opens no socket itself and adds
  exactly one timeout, of 3000 ms. When a pending timeout fires it is forgotten; if the
  session is connected at that moment nothing else happens, and if it is still
  disconnected exactly one socket is opened. A timeout fires at most once. In particular,
  if a reconnect from elsewhere succeeds before the timeout of a close event fires, that
  timeout opens no further socket.
\<close>

theorem C8_single_reconnect:
  "isConnected (handleWebSocketClose s) = False \<and>
   sockets_created (handleWebSocketClose s) = sockets_created s \<and>
   reconnect_timers (handleWebSocketClose s) = reconnect_timers s @ [(next_handle s, 3000)] \<and>
   (h \<in> fst ` set (reconnect_timers t) \<and> isConnected t \<longrightarrow>
      fire_reconnect_timer h t = t\<lparr>reconnect_timers := filter (\<lambda>(i, d). i \<noteq> h) (reconnect_timers t)\<rparr>) \<and>
   (h \<in> fst ` set (reconnect_timers t) \<and> \<not> isConnected t \<longrightarrow>
      sockets_created (fire_reconnect_timer h t) = Suc (sockets_created t) \<and>
      ws (fire_reconnect_timer h t) = Some (sockets_created t) \<and>
      reconnect_timers (fire_reconnect_timer h t) = filter (\<lambda>(i, d). i \<noteq> h) (reconnect_timers t)) \<and>
   fire_reconnect_timer h (fire_reconnect_timer h t) = fire_reconnect_timer h t \<and>
   sockets_created (fire_reconnect_timer (next_handle s)
      (handleWebSocketOpen (initializeWebSocket (handleWebSocketClose s)))) = Suc (sockets_created s)"
proof -
  have again: "fire_reconnect_timer h (fire_reconnect_timer h t) = fire_reconnect_timer h t"
    using fire_reconnect_timer_forgets [of h t]
    by (simp add: fire_reconnect_timer_def [of h "fire_reconnect_timer h t"])
  have restored: "sockets_created (fire_reconnect_timer (next_handle s)
      (handleWebSocketOpen (initializeWebSocket (handleWebSocketClose s)))) = Suc (sockets_created s)"
    by (simp add: fire_reconnect_timer_def reconnect_check_def handleWebSocketOpen_def
        initializeWebSocket_def handleWebSocketClose_def connection_addLogEntry_def Let_def)
  have close: "isConnected (handleWebSocketClose s) = False \<and>
      sockets_created (handleWebSocketClose s) = sockets_created s \<and>
      reconnect_timers (handleWebSocketClose s) = reconnect_timers s @ [(next_handle s, 3000)]"
    by (simp add: handleWebSocketClose_def connection_addLogEntry_def Let_def)
  have fire: "(h \<in> fst ` set (reconnect_timers t) \<and> isConnected t \<longrightarrow>
      fire_reconnect_timer h t = t\<lparr>reconnect_timers := filter (\<lambda>(i, d). i \<noteq> h) (reconnect_timers t)\<rparr>) \<and>
   (h \<in> fst ` set (reconnect_timers t) \<and> \<not> isConnected t \<longrightarrow>
      sockets_created (fire_reconnect_timer h t) = Suc (sockets_created t) \<and>
      ws (fire_reconnect_timer h t) = Some (sockets_created t) \<and>
      reconnect_timers (fire_reconnect_timer h t) = filter (\<lambda>(i, d). i \<noteq> h) (reconnect_timers t))"
    by (simp add: fire_reconnect_timer_def reconnect_check_def initializeWebSocket_def
        connection_addLogEntry_def Let_def)
  from close fire again restored show ?thesis
    by blast
qed


text \<open>
  At \<open>connected_session\<close>: after a close, timeout 1 fires while still disconnected and
  opens the second socket; if instead a reconnect has succeeded in between, the same
  timeout opens nothing more.
\<close>

theorem C8_single_reconnect_witness:
  "1 \<in> fst ` set (reconnect_timers (handleWebSocketClose connected_session)) \<and>
   \<not> isConnected (handleWebSocketClose connected_session) \<and>
   sockets_created (fire_reconnect_timer 1 (handleWebSocketClose connected_session)) = 2 \<and>
   ws (fire_reconnect_timer 1 (handleWebSocketClose connected_session)) = Some 1 \<and>
   reconnect_timers (fire_reconnect_timer 1 (handleWebSocketClose connected_session)) = [] \<and>
   1 \<in> fst ` set (reconnect_timers (handleWebSocketOpen (initializeWebSocket (handleWebSocketClose connected_session)))) \<and>
   isConnected (handleWebSocketOpen (initializeWebSocket (handleWebSocketClose connected_session))) \<and>
   sockets_created (fire_reconnect_timer 1
      (handleWebSocketOpen (initializeWebSocket (handleWebSocketClose connected_session)))) = 2"
proof -
  have a: "1 \<in> fst ` set (reconnect_timers (handleWebSocketClose connected_session)) \<and>
      \<not> isConnected (handleWebSocketClose connected_session)"
    by (simp add: connected_session_def handleWebSocketClose_def connection_addLogEntry_def Let_def)
  have b: "1 \<in> fst ` set (reconnect_timers (handleWebSocketOpen (initializeWebSocket (handleWebSocketClose connected_session)))) \<and>
      isConnected (handleWebSocketOpen (initializeWebSocket (handleWebSocketClose connected_session)))"
    by (simp add: connected_session_def handleWebSocketOpen_def initializeWebSocket_def handleWebSocketClose_def
        connection_addLogEntry_def Let_def)
  have c: "sockets_created (handleWebSocketClose connected_session) = 1"
      "reconnect_timers (handleWebSocketClose connected_session) = [(1, 3000)]"
      "sockets_created (handleWebSocketOpen (initializeWebSocket (handleWebSocketClose connected_session))) = 2"
    by (simp_all add: connected_session_def handleWebSocketOpen_def initializeWebSocket_def handleWebSocketClose_def
        connection_addLogEntry_def Let_def)
  show ?thesis
    using a b c C8_single_reconnect [of connected_session 1 "handleWebSocketClose connected_session"]
      C8_single_reconnect [of connected_session 1 "handleWebSocketOpen (initializeWebSocket (handleWebSocketClose connected_session))"]
    by simp
qed

section \<open>Properties of the configuration sync engine\<close>

lemma background_picked_eq:
  "background_picked =
     modal_open\<lparr>batchedChanges := [(''background'', Str ''space.png'')],
                pending := [(1, 250, FlushVisualPreview)],
                previewTimer := Some 1, next_id := 2\<rparr>"
  by (simp add: background_picked_def triggerVisualPreview_def VISUAL_FIELDS_def modal_open_def
      cancel_if_set_def PREVIEW_DEBOUNCE_DELAY_def Let_def)

lemma closed_early_eq:
  "closeSettings page_theme_manager background_picked =
     \<lparr>previewTimer = Some 1, localStorageTimer = Some 3, batchedChanges = [],
      lastAppliedValues = [(''background'', Str ''space.png'')],
      pending = [(3, 500, LocalStorageSave)], next_id = 4,
      world = \<lparr>jarvis_settings = Some [(''theme'', Str ''dark'')],
               view = \<lparr>dialogue_section = True, bg_image_url = Some ''static/images/space.png'',
                       bg_opacity = None, stored_background = Some ''space.png'',
                       stored_opacity = None\<rparr>\<rparr>,
      modal_shown = Some False, settingsModalOpen = False,
      engine_log = [(Message ''Parametres fermes'', LInfo)]\<rparr>"
  by (simp add: background_picked_eq modal_open_def closeSettings_def flushBatchedChanges_def
      flushVisualPreview_def applyVisualChange_def debouncedLocalStorageSave_def cancel_def
      cancel_if_set_def VISUAL_FIELDS_def get_prop_def page_theme_manager_def setBackground_def
      LOCALSTORAGE_DEBOUNCE_DELAY_def Let_def)

text \<open>
  In every state, closing leaves \<open>batchedChanges\<close> empty, and a storage timeout that
  fires on an empty batch stores the object that was there (the empty object when the key
  was absent).
\<close>

lemma closeSettings_empties_batch: "batchedChanges (closeSettings tm s) = []"
  by (simp add: closeSettings_def flushBatchedChanges_def Let_def split: option.splits)

lemma storage_save_callback_empty_batch:
  "batchedChanges s = [] \<Longrightarrow>
   jarvis_settings (world (storage_save_callback s)) =
     Some (case jarvis_settings (world s) of None \<Rightarrow> [] | Some obj \<Rightarrow> obj)"
  by (simp add: storage_save_callback_def obj_assign_def)

text \<open>
  Claim C2 at a concrete input. The background \<open>space.png\<close> is picked and the modal is
  closed before the preview timeout has fired. Closing applies the edit to the view, but
  writes nothing to \<open>jarvis-settings\<close>: it re-arms the storage timeout (500 ms) and empties
  \<open>batchedChanges\<close>, so that when the timeout fires the stored object is still without the
  edit and nothing is left pending. Had the modal stayed open, the two timeouts would
  have stored the edit.
\<close>

theorem C2_close_drops_storage_write:
  "batchedChanges background_picked = [(''background'', Str ''space.png'')] \<and>
   pending background_picked = [(1, 250, FlushVisualPreview)] \<and>
   bg_image_url (view (world (closeSettings page_theme_manager background_picked)))
     = Some ''static/images/space.png'' \<and>
   jarvis_settings (world (closeSettings page_theme_manager background_picked))
     = Some [(''theme'', Str ''dark'')] \<and>
   batchedChanges (closeSettings page_theme_manager background_picked) = [] \<and>
   pending (closeSettings page_theme_manager background_picked) = [(3, 500, LocalStorageSave)] \<and>
   jarvis_settings (world (fire page_theme_manager 3 (closeSettings page_theme_manager background_picked)))
     = Some [(''theme'', Str ''dark'')] \<and>
   pending (fire page_theme_manager 3 (closeSettings page_theme_manager background_picked)) = [] \<and>
   jarvis_settings (world (fire page_theme_manager 2 (fire page_theme_manager 1 background_picked)))
     = Some [(''theme'', Str ''dark''), (''background'', Str ''space.png'')]"
proof -
  let ?closed = "closeSettings page_theme_manager background_picked"
  have picked: "batchedChanges background_picked = [(''background'', Str ''space.png'')]"
      "pending background_picked = [(1, 250, FlushVisualPreview)]"
    by (simp_all add: background_picked_eq modal_open_def)
  have closed: "bg_image_url (view (world ?closed)) = Some ''static/images/space.png''"
      "jarvis_settings (world ?closed) = Some [(''theme'', Str ''dark'')]"
      "batchedChanges ?closed = []"
      "pending ?closed = [(3, 500, LocalStorageSave)]"
    by (simp_all add: closed_early_eq)
  have fired: "fire page_theme_manager 3 ?closed = ?closed\<lparr>pending := []\<rparr>"
    by (simp add: closed_early_eq fire_def cancel_def storage_save_callback_def obj_assign_def)
  have late: "jarvis_settings (world (fire page_theme_manager 3 ?closed)) = Some [(''theme'', Str ''dark'')]"
      "pending (fire page_theme_manager 3 ?closed) = []"
    by (simp_all add: fired closed)
  have first: "fire page_theme_manager 1 background_picked =
      modal_open\<lparr>batchedChanges := [(''background'', Str ''space.png'')],
                 lastAppliedValues := [(''background'', Str ''space.png'')],
                 pending := [(2, 500, LocalStorageSave)],
                 previewTimer := Some 1, localStorageTimer := Some 2, next_id := 3,
                 world := \<lparr>jarvis_settings = Some [(''theme'', Str ''dark'')],
                   view = \<lparr>dialogue_section = True, bg_image_url = Some ''static/images/space.png'',
                       bg_opacity = None, stored_background = Some ''space.png'',
                       stored_opacity = None\<rparr>\<rparr>\<rparr>"
    by (simp add: background_picked_eq modal_open_def fire_def
      flushVisualPreview_def applyVisualChange_def debouncedLocalStorageSave_def cancel_def
      cancel_if_set_def VISUAL_FIELDS_def get_prop_def page_theme_manager_def setBackground_def
      LOCALSTORAGE_DEBOUNCE_DELAY_def Let_def)
  have natural: "jarvis_settings (world (fire page_theme_manager 2 (fire page_theme_manager 1 background_picked)))
     = Some [(''theme'', Str ''dark''), (''background'', Str ''space.png'')]"
    unfolding first
    by (simp add: modal_open_def fire_def cancel_def storage_save_callback_def obj_assign_def)
  from picked closed late natural show ?thesis
    by (intro conjI)
qed











section \<open>Properties of the settings commit\<close>

lemma wait_run_append: "wait_run (es @ es') c = wait_run es' (wait_run es c)"
  by (induction es arbitrary: c) simp_all

lemma wait_step_unrelated: "unrelated e \<Longrightarrow> wait_step e c = c"
  by (cases e rule: unrelated.cases) (simp_all add: handleResponse_def)

lemma wait_run_unrelated: "list_all unrelated es \<Longrightarrow> wait_run es c = c"
  by (induction es) (simp_all add: wait_step_unrelated)

lemma settle_settled: "outcome c \<noteq> None \<Longrightarrow> settle b c = c"
  by (auto simp: settle_def)

lemma wait_step_settled:
  assumes "settled c"
  shows "settled (wait_step e c) \<and> outcome (wait_step e c) = outcome c \<and>
    sent (wait_step e c) = sent c \<and> commit_log (wait_step e c) = commit_log c \<and>
    modal_closed (wait_step e c) = modal_closed c"
proof (cases e)
  case (Inbound raw)
  with assms show ?thesis
    by (auto simp: settled_def handleResponse_def settle_def split: option.splits)
next
  case DeadlineElapsed
  with assms show ?thesis
    by (simp add: settled_def)
qed

lemma wait_run_settled:
  "settled c \<Longrightarrow>
   settled (wait_run es c) \<and> outcome (wait_run es c) = outcome c \<and>
   sent (wait_run es c) = sent c \<and> commit_log (wait_run es c) = commit_log c \<and>
   modal_closed (wait_run es c) = modal_closed c"
proof (induction es arbitrary: c)
  case Nil
  then show ?case by simp
next
  case (Cons e es)
  from wait_step_settled [OF Cons.prems, of e] Cons.IH [of "wait_step e c"]
  show ?case by simp
qed

lemma wait_step_waiting:
  assumes "waiting changes c"
  shows "waiting changes (wait_step e c) \<or>
    (settled (wait_step e c) \<and> sent (wait_step e c) = [changes] \<and>
     length (commit_log (wait_step e c)) = 1)"
proof (cases e)
  case (Inbound raw)
  with assms show ?thesis
    by (auto simp: waiting_def settled_def handleResponse_def settle_def Let_def split: option.splits)
next
  case DeadlineElapsed
  with assms show ?thesis
    by (simp add: waiting_def settled_def settle_def Let_def)
qed

lemma wait_run_waiting:
  "waiting changes c \<Longrightarrow>
   waiting changes (wait_run es c) \<or>
   (settled (wait_run es c) \<and> sent (wait_run es c) = [changes] \<and>
    length (commit_log (wait_run es c)) = 1)"
proof (induction es arbitrary: c)
  case Nil
  then show ?case by simp
next
  case (Cons e es)
  from wait_step_waiting [OF Cons.prems, of e]
  show ?case
  proof
    assume "waiting changes (wait_step e c)"
    then show ?thesis using Cons.IH by simp
  next
    assume s: "settled (wait_step e c) \<and> sent (wait_step e c) = [changes] \<and>
      length (commit_log (wait_step e c)) = 1"
    with wait_run_settled [of "wait_step e c" es] show ?thesis by simp
  qed
qed

lemma begin_wait_waiting: "waiting changes (begin_wait SendOk changes new_commit)"
  by (simp add: waiting_def begin_wait_def new_commit_def)

text \<open>
  Claim C7, as stated, fails when the send itself fails: no response ever arrives, yet
  the failure is reported at once, by neither of the two outcomes, and the timeout has
  been cancelled, so no deadline elapses.
\<close>

theorem C7_send_failure_resolves_at_once:
  "outcome (begin_wait NotOpen [(''llm_model'', Str ''qwen2.5:7b'')] new_commit) = Some False \<and>
   deadline (begin_wait NotOpen [(''llm_model'', Str ''qwen2.5:7b'')] new_commit) = None \<and>
   sent (begin_wait NotOpen [(''llm_model'', Str ''qwen2.5:7b'')] new_commit) = [] \<and>
   commit_log (begin_wait NotOpen [(''llm_model'', Str ''qwen2.5:7b'')] new_commit) =
     [(Message ''WebSocket non connecte'', LError),
      (Message ''Erreur sauvegarde: Timeout ou erreur serveur'', LError)]"
  by (simp add: begin_wait_def new_commit_def settle_def)

text \<open>
  Claim C7, amended. When the send fails (no open socket, or a throwing \<open>send\<close>) the
  promise is settled with failure at once, the timeout is cancelled and nothing is sent.
  For a commit whose \<open>config_update\<close> was handed to the socket: the promise is pending
  with one timeout of 5000 ms and one message sent; events other than a
  \<open>config_updated\<close> message and the timeout leave the wait as it is; when the timeout
  then fires, the commit reports the failure once, does not close the modal and sends
  nothing again, and no later event changes that. Whatever events arrive in whatever
  order, the request is sent exactly once and the outcome is reported at most once:
  after the first \<open>config_updated\<close> message or the timeout, whichever comes first, the
  promise is settled, no timeout is pending and nothing further is reported.
\<close>

theorem C7_timeout_reports_failure_once:
  "(r \<noteq> SendOk \<longrightarrow>
      outcome (begin_wait r changes new_commit) = Some False \<and>
      deadline (begin_wait r changes new_commit) = None \<and>
      sent (begin_wait r changes new_commit) = []) \<and>
   outcome (begin_wait SendOk changes new_commit) = None \<and>
   deadline (begin_wait SendOk changes new_commit) = Some 5000 \<and>
   sent (begin_wait SendOk changes new_commit) = [changes] \<and>
   (list_all unrelated es \<longrightarrow>
      wait_run es (begin_wait SendOk changes new_commit) = begin_wait SendOk changes new_commit \<and>
      outcome (wait_run (es @ [DeadlineElapsed]) (begin_wait SendOk changes new_commit)) = Some False \<and>
      commit_log (wait_run (es @ [DeadlineElapsed] @ later) (begin_wait SendOk changes new_commit)) =
        [(Message ''Erreur sauvegarde: Timeout ou erreur serveur'', LError)] \<and>
      sent (wait_run (es @ [DeadlineElapsed] @ later) (begin_wait SendOk changes new_commit)) = [changes] \<and>
      outcome (wait_run (es @ [DeadlineElapsed] @ later) (begin_wait SendOk changes new_commit)) = Some False \<and>
      \<not> modal_closed (wait_run (es @ [DeadlineElapsed] @ later) (begin_wait SendOk changes new_commit))) \<and>
   sent (wait_run evs (begin_wait SendOk changes new_commit)) = [changes] \<and>
   (case outcome (wait_run evs (begin_wait SendOk changes new_commit)) of
      None \<Rightarrow> commit_log (wait_run evs (begin_wait SendOk changes new_commit)) = [] \<and>
              deadline (wait_run evs (begin_wait SendOk changes new_commit)) = Some 5000
    | Some r \<Rightarrow> length (commit_log (wait_run evs (begin_wait SendOk changes new_commit))) = 1 \<and>
               deadline (wait_run evs (begin_wait SendOk changes new_commit)) = None \<and>
               outcome (wait_run (evs @ after) (begin_wait SendOk changes new_commit)) = Some r \<and>
               commit_log (wait_run (evs @ after) (begin_wait SendOk changes new_commit)) =
                 commit_log (wait_run evs (begin_wait SendOk changes new_commit)))"
proof -
  let ?c = "begin_wait SendOk changes new_commit"
  have w: "waiting changes ?c" by (rule begin_wait_waiting)
  have start: "outcome ?c = None \<and> deadline ?c = Some 5000 \<and> sent ?c = [changes]"
    using w by (simp add: waiting_def)
  have quiet: "wait_run es ?c = ?c \<and>
      outcome (wait_run (es @ [DeadlineElapsed]) ?c) = Some False \<and>
      commit_log (wait_run (es @ [DeadlineElapsed] @ later) ?c) =
        [(Message ''Erreur sauvegarde: Timeout ou erreur serveur'', LError)] \<and>
      sent (wait_run (es @ [DeadlineElapsed] @ later) ?c) = [changes] \<and>
      outcome (wait_run (es @ [DeadlineElapsed] @ later) ?c) = Some False \<and>
      \<not> modal_closed (wait_run (es @ [DeadlineElapsed] @ later) ?c)"
    if q: "list_all unrelated es"
  proof -
    have same: "wait_run es ?c = ?c"
      using q by (rule wait_run_unrelated)
    let ?d = "wait_step DeadlineElapsed ?c"
    have d: "outcome ?d = Some False" "deadline ?d = None" "sent ?d = [changes]"
        "commit_log ?d = [(Message ''Erreur sauvegarde: Timeout ou erreur serveur'', LError)]"
        "\<not> modal_closed ?d"
      using w by (simp_all add: waiting_def settle_def Let_def)
    then have "settled ?d" by (simp add: settled_def)
    from wait_run_settled [OF this, of later] d same show ?thesis
      by (simp add: wait_run_append)
  qed
  have any: "sent (wait_run evs ?c) = [changes] \<and>
   (case outcome (wait_run evs ?c) of
      None \<Rightarrow> commit_log (wait_run evs ?c) = [] \<and> deadline (wait_run evs ?c) = Some 5000
    | Some r \<Rightarrow> length (commit_log (wait_run evs ?c)) = 1 \<and> deadline (wait_run evs ?c) = None \<and>
               outcome (wait_run (evs @ after) ?c) = Some r \<and>
               commit_log (wait_run (evs @ after) ?c) = commit_log (wait_run evs ?c))"
    using wait_run_waiting [OF w, of evs]
  proof
    assume "waiting changes (wait_run evs ?c)"
    then show ?thesis by (simp add: waiting_def)
  next
    assume s: "settled (wait_run evs ?c) \<and> sent (wait_run evs ?c) = [changes] \<and>
      length (commit_log (wait_run evs ?c)) = 1"
    then have "settled (wait_run evs ?c)" by simp
    from wait_run_settled [OF this, of after] s show ?thesis
      by (auto simp: wait_run_append settled_def)
  qed
  have failed: "outcome (begin_wait r changes new_commit) = Some False \<and>
      deadline (begin_wait r changes new_commit) = None \<and>
      sent (begin_wait r changes new_commit) = []" if "r \<noteq> SendOk"
    using that by (cases r) (simp_all add: begin_wait_def new_commit_def settle_def)
  from failed start quiet any show ?thesis
    by blast
qed

text \<open>
  A commit of one change: a \<open>pong\<close> and an unreadable message arrive, the timeout
  fires, and the confirmation arrives too late to change anything.
\<close>

theorem C7_timeout_reports_failure_once_witness:
  "list_all unrelated [Inbound (Some pong_message), Inbound None] \<and>
   wait_run [Inbound (Some pong_message), Inbound None]
       (begin_wait SendOk [(''llm_model'', Str ''qwen2.5:7b'')] new_commit)
     = begin_wait SendOk [(''llm_model'', Str ''qwen2.5:7b'')] new_commit \<and>
   outcome (wait_run ([Inbound (Some pong_message), Inbound None] @ [DeadlineElapsed] @
        [Inbound (Some config_updated_ok)])
       (begin_wait SendOk [(''llm_model'', Str ''qwen2.5:7b'')] new_commit)) = Some False \<and>
   commit_log (wait_run ([Inbound (Some pong_message), Inbound None] @ [DeadlineElapsed] @
        [Inbound (Some config_updated_ok)])
       (begin_wait SendOk [(''llm_model'', Str ''qwen2.5:7b'')] new_commit))
     = [(Message ''Erreur sauvegarde: Timeout ou erreur serveur'', LError)] \<and>
   sent (wait_run ([Inbound (Some pong_message), Inbound None] @ [DeadlineElapsed] @
        [Inbound (Some config_updated_ok)])
       (begin_wait SendOk [(''llm_model'', Str ''qwen2.5:7b'')] new_commit))
     = [[(''llm_model'', Str ''qwen2.5:7b'')]] \<and>
   NotOpen \<noteq> SendOk \<and>
   outcome (begin_wait NotOpen [(''llm_model'', Str ''qwen2.5:7b'')] new_commit) = Some False"
proof -
  have q: "list_all unrelated [Inbound (Some pong_message), Inbound None]"
    by (simp add: pong_message_def)
  from q C7_timeout_reports_failure_once
    [where es = "[Inbound (Some pong_message), Inbound None]"
      and later = "[Inbound (Some config_updated_ok)]"
      and changes = "[(''llm_model'', Str ''qwen2.5:7b'')]"
      and r = NotOpen]
  show ?thesis
    by (simp del: wait_run.simps)
qed

end
